theory Spec2Isabelle
  imports Main
begin

section \<open>The song list page (frontend/src/App.tsx)\<close>

text \<open>
  The page is one React function component, \<open>App\<close>, with four state slots, one function
  \<open>fetchSongs\<close> that builds a query string and issues a request, one effect that depends on
  \<open>sortKey\<close>, and the JSX it returns.

  Strings are \<open>string\<close>, holding the UTF-8 bytes of the JavaScript string: the code only
  tests strings for emptiness, passes them on, and hands them to \<open>URLSearchParams\<close>, which
  serialises the UTF-8 bytes. Text literals outside ASCII are written byte by byte.
\<close>

subsection \<open>Data model\<close>

text \<open>\<open>interface Song\<close>: \<open>id: number\<close>, \<open>title: string\<close>, \<open>release_date: string | null\<close>.\<close>

record song =
  song_id :: int
  title :: string
  release_date :: "string option"

text \<open>
  The four \<open>useState\<close> slots of \<open>App\<close> and their initial values:
  \<open>songs = []\<close>, \<open>error = ""\<close>, \<open>keyword = ""\<close>, \<open>sortKey = "id"\<close>.
\<close>

record app_state =
  songs :: "song list"
  error :: string
  keyword :: string
  sortKey :: string

definition initial_state :: app_state where
  "initial_state = \<lparr>songs = [], error = [], keyword = [], sortKey = ''id''\<rparr>"

text \<open>JavaScript truthiness of a string: the empty string is falsy, any other is truthy.\<close>

definition truthy :: "string \<Rightarrow> bool" where
  "truthy s = (s \<noteq> [])"

subsection \<open>Text constants\<close>

text \<open>
  The message of \<open>setError\<close> in the \<open>catch\<close> handler, code points
  U+30C7 U+30FC U+30BF U+306E U+53D6 U+5F97 U+306B U+5931 U+6557 U+3057 U+307E U+3057 U+305F.
\<close>

definition fetch_error_text :: string where
  "fetch_error_text =
    [CHR 0xE3, CHR 0x83, CHR 0x87, CHR 0xE3, CHR 0x83, CHR 0xBC, CHR 0xE3, CHR 0x82, CHR 0xBF,
     CHR 0xE3, CHR 0x81, CHR 0xAE, CHR 0xE5, CHR 0x8F, CHR 0x96, CHR 0xE5, CHR 0xBE, CHR 0x97,
     CHR 0xE3, CHR 0x81, CHR 0xAB, CHR 0xE5, CHR 0xA4, CHR 0xB1, CHR 0xE6, CHR 0x95, CHR 0x97,
     CHR 0xE3, CHR 0x81, CHR 0x97, CHR 0xE3, CHR 0x81, CHR 0xBE, CHR 0xE3, CHR 0x81, CHR 0x97,
     CHR 0xE3, CHR 0x81, CHR 0x9F]"

text \<open>
  The fallback of \<open>song.release_date || ...\<close>, code points
  U+767A U+58F2 U+65E5 U+672A U+5B9A.
\<close>

definition release_date_fallback :: string where
  "release_date_fallback =
    [CHR 0xE7, CHR 0x99, CHR 0xBA, CHR 0xE5, CHR 0xA3, CHR 0xB2, CHR 0xE6, CHR 0x97, CHR 0xA5,
     CHR 0xE6, CHR 0x9C, CHR 0xAA, CHR 0xE5, CHR 0xAE, CHR 0x9A]"

subsection \<open>The promise chain of \<open>fetchSongs\<close>\<close>

text \<open>
  What \<open>fetch\<close> settles with: the promise rejects (\<open>NetworkError\<close>), or it resolves with a
  response that has an \<open>ok\<close> flag and a body; \<open>response.json()\<close> rejects when the body is
  not JSON (\<open>None\<close>) and resolves with the parsed value otherwise. The parsed value is taken
  at the type the \<open>songs\<close> slot declares, \<open>Song[]\<close>.
\<close>

datatype fetch_result = NetworkError | Response bool "song list option"

text \<open>What the chain throws: the \<open>Error\<close> of the first handler, or a rejection passed through.\<close>

datatype thrown = NotOk | FetchRejected | JsonRejected

text \<open>
  First \<open>.then\<close>: \<open>if (!response.ok) throw new Error(...); return response.json()\<close>.
  A rejected \<open>fetch\<close> skips the handler and stays rejected.
\<close>

fun then_response :: "fetch_result \<Rightarrow> thrown + song list" where
  "then_response NetworkError = Inl FetchRejected"
| "then_response (Response ok body) =
     (if \<not> ok then Inl NotOk
      else case body of None \<Rightarrow> Inl JsonRejected | Some data \<Rightarrow> Inr data)"

text \<open>Second \<open>.then\<close>: \<open>setSongs(data); setError("")\<close>.\<close>

definition then_data :: "song list \<Rightarrow> app_state \<Rightarrow> app_state" where
  "then_data data a = a\<lparr>songs := data, error := []\<rparr>"

text \<open>\<open>.catch\<close>: \<open>setError(...)\<close> with the fixed text; the caught value only goes to the console.\<close>

definition catch_err :: "thrown \<Rightarrow> app_state \<Rightarrow> app_state" where
  "catch_err err a = a\<lparr>error := fetch_error_text\<rparr>"

text \<open>The whole chain, applied to the component state at the moment the promise settles.\<close>

definition on_settled :: "fetch_result \<Rightarrow> app_state \<Rightarrow> app_state" where
  "on_settled r a = (case then_response r of Inl err \<Rightarrow> catch_err err a | Inr data \<Rightarrow> then_data data a)"

subsection \<open>\<open>URLSearchParams\<close>\<close>

text \<open>
  \<open>URLSearchParams\<close> is the browser's: a list of name-value pairs, \<open>append\<close> adding at
  the end, \<open>toString\<close> the application/x-www-form-urlencoded serialiser of the URL
  standard: a space becomes \<open>+\<close>; ASCII letters, digits and \<open>* - . _\<close> stay; every other
  byte becomes \<open>%\<close> and two upper-case hexadecimal digits; name and value are joined by
  \<open>=\<close> and the pairs by \<open>&\<close>.
\<close>

type_synonym params = "(string \<times> string) list"

definition append_param :: "string \<Rightarrow> string \<Rightarrow> params \<Rightarrow> params" where
  "append_param name v ps = ps @ [(name, v)]"

definition hex_digit :: "nat \<Rightarrow> char" where
  "hex_digit n = ''0123456789ABCDEF'' ! n"

definition alphanumeric :: "char \<Rightarrow> bool" where
  "alphanumeric c =
     (let n = (of_char c :: nat)
      in (48 \<le> n \<and> n \<le> 57) \<or> (65 \<le> n \<and> n \<le> 90) \<or> (97 \<le> n \<and> n \<le> 122))"

definition form_unreserved :: "char \<Rightarrow> bool" where
  "form_unreserved c = (alphanumeric c \<or> c \<in> set ''*-._'')"

definition encode_byte :: "char \<Rightarrow> string" where
  "encode_byte c =
     (if c = CHR '' '' then ''+''
      else if form_unreserved c then [c]
      else [CHR ''%'', hex_digit (of_char c div 16), hex_digit (of_char c mod 16)])"

definition percent_encode :: "string \<Rightarrow> string" where
  "percent_encode s = concat (map encode_byte s)"

definition serialize_pair :: "string \<times> string \<Rightarrow> string" where
  "serialize_pair p = percent_encode (fst p) @ ''='' @ percent_encode (snd p)"

fun join_amp :: "string list \<Rightarrow> string" where
  "join_amp [] = []"
| "join_amp [x] = x"
| "join_amp (x # y # r) = x @ ''&'' @ join_amp (y # r)"

definition toString :: "params \<Rightarrow> string" where
  "toString ps = join_amp (map serialize_pair ps)"

text \<open>
  The way back, the application/x-www-form-urlencoded parser of the same standard, by which
  the receiver of a query string reads its parameters: split at \<open>&\<close>, drop empty pieces,
  split each piece at its first \<open>=\<close>, turn \<open>+\<close> into a space and percent-decode. It is
  used here only to say which parameters a query string carries.
\<close>

fun split_on :: "char \<Rightarrow> string \<Rightarrow> string list" where
  "split_on d [] = [[]]"
| "split_on d (c # r) =
     (if c = d then [] # split_on d r
      else case split_on d r of [] \<Rightarrow> [[c]] | w # ws \<Rightarrow> (c # w) # ws)"

definition hex_value :: "char \<Rightarrow> nat option" where
  "hex_value c =
     (let n = (of_char c :: nat)
      in if 48 \<le> n \<and> n \<le> 57 then Some (n - 48)
         else if 65 \<le> n \<and> n \<le> 70 then Some (n - 55)
         else if 97 \<le> n \<and> n \<le> 102 then Some (n - 87)
         else None)"

fun percent_decode :: "string \<Rightarrow> string" where
  "percent_decode [] = []"
| "percent_decode (c # r) =
     (if c = CHR ''%'' then
        (case r of
           h # l # r' \<Rightarrow>
             (case (hex_value h, hex_value l) of
                (Some a, Some b) \<Rightarrow> char_of (16 * a + b) # percent_decode r'
              | _ \<Rightarrow> c # percent_decode r)
         | _ \<Rightarrow> c # percent_decode r)
      else c # percent_decode r)"

definition form_decode :: "string \<Rightarrow> string" where
  "form_decode s = percent_decode (map (\<lambda>c. if c = CHR ''+'' then CHR '' '' else c) s)"

definition parse_pair :: "string \<Rightarrow> string \<times> string" where
  "parse_pair piece =
     (form_decode (takeWhile (\<lambda>c. c \<noteq> CHR ''='') piece),
      form_decode (drop 1 (dropWhile (\<lambda>c. c \<noteq> CHR ''='') piece)))"

definition parse_query :: "string \<Rightarrow> params" where
  "parse_query q = map parse_pair (filter (\<lambda>piece. piece \<noteq> []) (split_on CHR ''&'' q))"

text \<open>\<open>URLSearchParams.get\<close>: the value of the first pair with that name, if any.\<close>

definition get_param :: "string \<Rightarrow> params \<Rightarrow> string option" where
  "get_param name ps = map_of ps name"

subsection \<open>\<open>fetchSongs\<close>: building and issuing the request\<close>

text \<open>A request as \<open>fetch\<close> receives it: \<open>fetch(url)\<close> with one argument is a GET of that URL.\<close>

record request =
  http_method :: string
  url :: string

definition fetch :: "string \<Rightarrow> request" where
  "fetch u = \<lparr>http_method = ''GET'', url = u\<rparr>"

definition songs_endpoint :: string where
  "songs_endpoint = ''http://127.0.0.1:8000/songs/''"

text \<open>
  \<open>const params = new URLSearchParams();
  if (keyword) params.append("title_search", keyword);
  if (sortKey) params.append("sort_by", sortKey);\<close>
\<close>

definition fetchSongs_params :: "app_state \<Rightarrow> params" where
  "fetchSongs_params a =
     (let ps0 = [];
          ps1 = (if truthy (keyword a) then append_param ''title_search'' (keyword a) ps0 else ps0);
          ps2 = (if truthy (sortKey a) then append_param ''sort_by'' (sortKey a) ps1 else ps1)
      in ps2)"

text \<open>The synchronous part of \<open>fetchSongs\<close>: the template string and the call of \<open>fetch\<close>.\<close>

definition fetchSongs :: "app_state \<Rightarrow> request" where
  "fetchSongs a = fetch (songs_endpoint @ ''?'' @ toString (fetchSongs_params a))"

text \<open>The query string of a URL: what follows the first \<open>?\<close>.\<close>

definition query_of :: "string \<Rightarrow> string" where
  "query_of u = drop 1 (dropWhile (\<lambda>c. c \<noteq> CHR ''?'') u)"

subsection \<open>The page as an event-driven system\<close>

text \<open>
  The browser runs one handler at a time. The system state is the component state, the
  requests whose promise has not settled yet (in the order they were issued) and the log
  of all requests issued so far. Nothing in \<open>App\<close> keeps a handle on a request: there is
  no AbortController and no request counter, so the two lists exist only in the model.
\<close>

record system =
  app :: app_state
  in_flight :: "request list"
  sent :: "request list"

text \<open>The three \<open>option\<close> elements of the select and their \<open>value\<close> attributes.\<close>

datatype sort_option = OptionId | OptionReleaseDate | OptionTitle

fun option_value :: "sort_option \<Rightarrow> string" where
  "option_value OptionId = ''id''"
| "option_value OptionReleaseDate = ''release_date''"
| "option_value OptionTitle = ''title''"

text \<open>
  The events: typing in the search box (\<open>onChange\<close> of the input, with the new text),
  clicking the search button, choosing an option of the select, and the promise of the
  in-flight request at a position settling with a result.
\<close>

datatype event =
    ChangeKeyword string
  | ClickSearch
  | ChangeSort sort_option
  | Settle nat fetch_result

text \<open>A call of \<open>fetchSongs\<close> in the current render: one more request, in flight.\<close>

definition issue :: "system \<Rightarrow> system" where
  "issue s =
     (let r = fetchSongs (app s)
      in s\<lparr>in_flight := in_flight s @ [r], sent := sent s @ [r]\<rparr>)"

text \<open>
  Mounting: the first render with the initial state, then the effect, which runs once
  after the first render and calls \<open>fetchSongs\<close>.
\<close>

definition mount :: system where
  "mount = issue \<lparr>app = initial_state, in_flight = [], sent = []\<rparr>"

text \<open>
  One event. \<open>setKeyword\<close> re-renders and the effect does not run, its dependency
  \<open>sortKey\<close> being the same. \<open>setSortKey\<close> re-renders and the effect runs when the new
  \<open>sortKey\<close> differs from that of the previous render, with the \<open>fetchSongs\<close> of the new
  render. A settling promise runs the chain on the current state; a position with no
  request in flight settles nothing.
\<close>

fun step :: "event \<Rightarrow> system \<Rightarrow> system" where
  "step (ChangeKeyword v) s = s\<lparr>app := (app s)\<lparr>keyword := v\<rparr>\<rparr>"
| "step ClickSearch s = issue s"
| "step (ChangeSort opt) s =
     (let s' = s\<lparr>app := (app s)\<lparr>sortKey := option_value opt\<rparr>\<rparr>
      in if option_value opt \<noteq> sortKey (app s) then issue s' else s')"
| "step (Settle i r) s =
     (if i < length (in_flight s)
      then s\<lparr>app := on_settled r (app s),
             in_flight := take i (in_flight s) @ drop (Suc i) (in_flight s)\<rparr>
      else s)"

definition run :: "event list \<Rightarrow> system \<Rightarrow> system" where
  "run es s = foldl (\<lambda>s e. step e s) s es"

subsection \<open>Rendering\<close>

text \<open>
  The JSX that \<open>App\<close> returns, reduced to the parts that depend on state: the value of the
  search box, the value of the select, the number in the heading (\<open>songs.length\<close>), the
  error paragraph (\<open>error && <p>...\<close>) and one \<open>li\<close> per element of \<open>songs.map\<close>.
\<close>

record list_entry =
  entry_key :: int
  entry_title :: string
  entry_date :: string

record view =
  search_value :: string
  sort_value :: string
  heading_count :: nat
  error_paragraph :: "string option"
  entries :: "list_entry list"

text \<open>
  \<open>song.release_date || fallback\<close>: the left operand when it is truthy, the fallback when it
  is \<open>null\<close> or the empty string, the two falsy values of \<open>string | null\<close>.
\<close>

definition release_date_text :: "string option \<Rightarrow> string" where
  "release_date_text d =
     (case d of
        None \<Rightarrow> release_date_fallback
      | Some s \<Rightarrow> if truthy s then s else release_date_fallback)"

definition render_song :: "song \<Rightarrow> list_entry" where
  "render_song s =
     \<lparr>entry_key = song_id s, entry_title = title s, entry_date = release_date_text (release_date s)\<rparr>"

definition render :: "app_state \<Rightarrow> view" where
  "render a =
     \<lparr>search_value = keyword a,
      sort_value = sortKey a,
      heading_count = length (songs a),
      error_paragraph = (if truthy (error a) then Some (error a) else None),
      entries = map render_song (songs a)\<rparr>"

section \<open>Properties\<close>

subsection \<open>The query string can be read back\<close>

text \<open>
  Serialising a parameter list and parsing the result gives the list back, for every list
  of byte strings: no value, whatever it contains, leaks into another parameter.
\<close>

lemma nat_below_16:
  "n < 16 \<Longrightarrow> n \<in> {0, 1, 2, 3, 4, 5, 6, 7, 8, 9, 10, 11, 12, 13, 14, 15::nat}"
  by simp arith

lemma nibble_bounds: "(of_char c :: nat) div 16 < 16" "(of_char c :: nat) mod 16 < 16"
proof -
  have "(of_char c :: nat) < 16 * 16" using nat_of_char_less_256 [of c] by simp
  then show "(of_char c :: nat) div 16 < 16" by (rule less_mult_imp_div_less)
  show "(of_char c :: nat) mod 16 < 16" by simp
qed

lemma hex_value_hex_digit: "n < 16 \<Longrightarrow> hex_value (hex_digit n) = Some n"
  by (drule nat_below_16) (auto simp: hex_digit_def hex_value_def)

lemma hex_digit_in: "n < 16 \<Longrightarrow> hex_digit n \<in> set ''0123456789ABCDEF''"
  unfolding hex_digit_def by (rule nth_mem) simp

lemma hex_digit_plain:
  assumes "n < 16"
  shows "hex_digit n \<noteq> CHR ''+''" "hex_digit n \<noteq> CHR ''&''" "hex_digit n \<noteq> CHR ''=''"
  using hex_digit_in [OF assms] by auto

lemma unreserved_plain:
  assumes "form_unreserved c"
  shows "c \<noteq> CHR ''%''" "c \<noteq> CHR ''+''" "c \<noteq> CHR ''&''" "c \<noteq> CHR ''=''"
  using assms by (auto simp: form_unreserved_def alphanumeric_def)

lemma encode_byte_clean:
  "CHR ''&'' \<notin> set (encode_byte c)" "CHR ''='' \<notin> set (encode_byte c)"
  using unreserved_plain [of c] hex_digit_plain [OF nibble_bounds(1), of c]
    hex_digit_plain [OF nibble_bounds(2), of c]
  by (auto simp: encode_byte_def)

lemma percent_encode_clean:
  "CHR ''&'' \<notin> set (percent_encode s)" "CHR ''='' \<notin> set (percent_encode s)"
  by (auto simp: percent_encode_def encode_byte_clean)

lemma decode_encode_byte:
  "percent_decode (map (\<lambda>c. if c = CHR ''+'' then CHR '' '' else c) (encode_byte c @ r))
   = c # percent_decode (map (\<lambda>c. if c = CHR ''+'' then CHR '' '' else c) r)"
proof (cases "c = CHR '' ''")
  case True
  then show ?thesis by (simp add: encode_byte_def)
next
  case space: False
  show ?thesis
  proof (cases "form_unreserved c")
    case True
    with space unreserved_plain [of c] show ?thesis by (simp add: encode_byte_def)
  next
    case False
    note hi = nibble_bounds(1) [of c] and lo = nibble_bounds(2) [of c]
    from space False show ?thesis
      by (simp add: encode_byte_def hex_digit_plain [OF hi] hex_digit_plain [OF lo]
          hex_value_hex_digit [OF hi] hex_value_hex_digit [OF lo])
  qed
qed

lemma form_decode_percent_encode: "form_decode (percent_encode s) = s"
proof (induction s)
  case Nil
  show ?case by (simp add: form_decode_def percent_encode_def)
next
  case (Cons c s)
  then show ?case
    using decode_encode_byte [of c "percent_encode s"]
    by (simp add: form_decode_def percent_encode_def)
qed

lemma split_on_absent: "d \<notin> set x \<Longrightarrow> split_on d x = [x]"
  by (induction x) auto

lemma split_on_first: "d \<notin> set x \<Longrightarrow> split_on d (x @ d # y) = x # split_on d y"
  by (induction x) auto

lemma split_on_join_amp:
  "\<forall>x \<in> set xs. CHR ''&'' \<notin> set x \<Longrightarrow> xs \<noteq> [] \<Longrightarrow> split_on CHR ''&'' (join_amp xs) = xs"
proof (induction xs rule: join_amp.induct)
  case 1
  then show ?case by simp
next
  case (2 x)
  then show ?case by (simp add: split_on_absent)
next
  case (3 x y r)
  then show ?case by (simp add: split_on_first)
qed

lemma serialize_pair_clean: "CHR ''&'' \<notin> set (serialize_pair p)"
  by (simp add: serialize_pair_def percent_encode_clean)

lemma serialize_pair_nonempty: "serialize_pair p \<noteq> []"
  by (simp add: serialize_pair_def)

lemma parse_pair_serialize_pair: "parse_pair (serialize_pair p) = p"
proof -
  have t: "takeWhile (\<lambda>c. c \<noteq> CHR ''='') (percent_encode (fst p) @ CHR ''='' # percent_encode (snd p))
           = percent_encode (fst p)"
    using percent_encode_clean(2) [of "fst p"] by (auto simp: takeWhile_tail)
  have d: "dropWhile (\<lambda>c. c \<noteq> CHR ''='') (percent_encode (fst p) @ CHR ''='' # percent_encode (snd p))
           = CHR ''='' # percent_encode (snd p)"
    using percent_encode_clean(2) [of "fst p"] by (auto simp: dropWhile_append3)
  show ?thesis
    by (simp add: parse_pair_def serialize_pair_def t d form_decode_percent_encode)
qed

lemma parse_query_toString: "parse_query (toString ps) = ps"
proof (cases "ps = []")
  case True
  then show ?thesis by (simp add: parse_query_def toString_def)
next
  case False
  then have "split_on CHR ''&'' (join_amp (map serialize_pair ps)) = map serialize_pair ps"
    by (intro split_on_join_amp) (auto simp: serialize_pair_clean)
  then show ?thesis
    by (simp add: parse_query_def toString_def serialize_pair_nonempty o_def
        parse_pair_serialize_pair)
qed

subsection \<open>Facts about \<open>fetchSongs\<close> and single steps\<close>

lemma fetchSongs_method: "http_method (fetchSongs a) = ''GET''"
  by (simp add: fetchSongs_def fetch_def)

lemma fetchSongs_url: "url (fetchSongs a) = ''http://127.0.0.1:8000/songs/?'' @ toString (fetchSongs_params a)"
  by (simp add: fetchSongs_def fetch_def songs_endpoint_def)

lemma fetchSongs_query: "query_of (url (fetchSongs a)) = toString (fetchSongs_params a)"
  by (simp add: fetchSongs_url query_of_def)

lemma fetchSongs_parsed: "parse_query (query_of (url (fetchSongs a))) = fetchSongs_params a"
  by (simp add: fetchSongs_query parse_query_toString)

lemma fetchSongs_params_cases:
  "fetchSongs_params a =
     (if keyword a = [] then [] else [(''title_search'', keyword a)])
     @ (if sortKey a = [] then [] else [(''sort_by'', sortKey a)])"
  by (simp add: fetchSongs_params_def truthy_def append_param_def)

lemma issue_simps:
  "app (issue s) = app s"
  "sent (issue s) = sent s @ [fetchSongs (app s)]"
  "in_flight (issue s) = in_flight s @ [fetchSongs (app s)]"
  by (simp_all add: issue_def Let_def)

lemma option_value_truthy: "option_value opt \<noteq> []"
  by (cases opt) simp_all

lemma fetch_error_text_truthy: "truthy fetch_error_text"
  by (simp add: truthy_def fetch_error_text_def)


lemma sent_step_extends: "\<exists>rs. sent (step e s) = sent s @ rs"
  by (cases e) (simp_all add: issue_simps Let_def)

lemma sent_run_extends: "\<exists>rs. sent (run es s) = sent s @ rs"
proof (induction es arbitrary: s)
  case Nil
  show ?case by (simp add: run_def)
next
  case (Cons e es)
  from Cons.IH [of "step e s"] obtain rs where "sent (run es (step e s)) = sent (step e s) @ rs" ..
  moreover obtain rs' where "sent (step e s) = sent s @ rs'"
    using sent_step_extends by blast
  ultimately show ?case by (simp add: run_def)
qed

text \<open>
  The chain reaches \<open>catch\<close> in three ways: the promise of \<open>fetch\<close> rejects, the status
  is not ok, or the body of an ok response is not JSON.
\<close>

lemma failure_paths:
  "on_settled NetworkError a = a\<lparr>error := fetch_error_text\<rparr>"
  "on_settled (Response False body) a = a\<lparr>error := fetch_error_text\<rparr>"
  "on_settled (Response True None) a = a\<lparr>error := fetch_error_text\<rparr>"
  by (simp_all add: on_settled_def catch_err_def)

text \<open>Only a response that is ok and parses touches the songs list.\<close>

lemma songs_change_only_on_success:
  "songs (app (step e s)) = songs (app s) \<or> (\<exists>i d. e = Settle i (Response True (Some d)))"
proof (cases e)
  case (Settle i r)
  then show ?thesis
    by (cases r) (auto simp: on_settled_def catch_err_def split: option.splits)
qed (simp_all add: issue_simps Let_def)

subsection \<open>Outcome of a fetch\<close>



text \<open>
  Claim C4. When a fetch succeeds, that is the response is ok and its body parses, the
  songs list becomes the parsed array, whatever it was, and the error message becomes the
  empty string; the search text and the sort key stay as they are.
\<close>

theorem success_replaces_songs_and_clears_error:
  "songs (on_settled (Response True (Some data)) a) = data
   \<and> error (on_settled (Response True (Some data)) a) = []
   \<and> keyword (on_settled (Response True (Some data)) a) = keyword a
   \<and> sortKey (on_settled (Response True (Some data)) a) = sortKey a"
  by (simp add: on_settled_def then_data_def)

text \<open>
  Claim C6. A rejected network call and a response whose status is not ok leave the same
  fixed text in the error slot, and the error paragraph of the page shows that text in
  both cases.
\<close>

theorem both_failure_modes_same_text:
  "error (on_settled NetworkError a) = fetch_error_text
   \<and> error (on_settled (Response False body) a) = fetch_error_text
   \<and> error_paragraph (render (on_settled NetworkError a)) = Some fetch_error_text
   \<and> error_paragraph (render (on_settled (Response False body) a)) = Some fetch_error_text"
  using fetch_error_text_truthy
  by (simp add: on_settled_def catch_err_def render_def)

text \<open>
  Claim C7. Nothing orders responses. With one request in flight, then the search text
  changed and a second request sent, let the second response arrive first and the first
  response last: the list shown at the end is that of the first request, the last to
  arrive, and both requests have left the in-flight list. In general a successful response
  to any request in flight, at any position, becomes the songs list.
\<close>

theorem last_response_to_arrive_wins:
  "(let n = length (in_flight s);
        first_sent = step ClickSearch s;
        second_sent = step ClickSearch (step (ChangeKeyword k) first_sent);
        second_arrived = step (Settle (Suc n) (Response True (Some d2))) second_sent;
        first_arrived = step (Settle n (Response True (Some d1))) second_arrived
    in in_flight second_sent
         = in_flight s @ [fetchSongs (app s), fetchSongs ((app s)\<lparr>keyword := k\<rparr>)]
       \<and> sent second_sent = sent s @ [fetchSongs (app s), fetchSongs ((app s)\<lparr>keyword := k\<rparr>)]
       \<and> songs (app second_arrived) = d2
       \<and> in_flight second_arrived = in_flight s @ [fetchSongs (app s)]
       \<and> songs (app first_arrived) = d1
       \<and> in_flight first_arrived = in_flight s)
   \<and> songs (app (step (Settle i (Response True (Some d))) s))
       = (if i < length (in_flight s) then d else songs (app s))"
  by (simp add: Let_def issue_simps on_settled_def then_data_def)

subsection \<open>Requests\<close>


text \<open>
  Claim C3. Mounting issues exactly one request, a GET of
  \<open>http://127.0.0.1:8000/songs/?\<close> followed by its query string, whose \<open>sort_by\<close> is
  the initial sort key \<open>id\<close>. Choosing an option whose value differs from the current sort
  key issues exactly one more request, a GET of the same URL whose \<open>sort_by\<close> is the value
  of the chosen option, one of \<open>id\<close>, \<open>release_date\<close>, \<open>title\<close>, which is the sort key
  from then on.
\<close>

theorem sort_change_issues_one_request:
  "(let r = fetchSongs (app mount)
    in sent mount = [r] \<and> http_method r = ''GET''
       \<and> url r = ''http://127.0.0.1:8000/songs/?'' @ query_of (url r)
       \<and> sortKey (app mount) = ''id''
       \<and> get_param ''sort_by'' (parse_query (query_of (url r))) = Some ''id'')
   \<and> (option_value opt \<noteq> sortKey (app s) \<longrightarrow>
       (let s' = step (ChangeSort opt) s; r = fetchSongs (app s')
        in sent s' = sent s @ [r] \<and> http_method r = ''GET''
           \<and> url r = ''http://127.0.0.1:8000/songs/?'' @ query_of (url r)
           \<and> sortKey (app s') = option_value opt
           \<and> option_value opt \<in> {''id'', ''release_date'', ''title''}
           \<and> get_param ''sort_by'' (parse_query (query_of (url r))) = Some (option_value opt)))"
proof -
  have sort_by: "get_param ''sort_by'' (fetchSongs_params a) = Some (sortKey a)"
    if "sortKey a \<noteq> []" for a
    using that by (simp add: fetchSongs_params_cases get_param_def)
  have url: "url (fetchSongs a) = ''http://127.0.0.1:8000/songs/?'' @ query_of (url (fetchSongs a))" for a
    unfolding fetchSongs_query by (rule fetchSongs_url)
  have m: "app mount = initial_state" "sent mount = [fetchSongs initial_state]"
    by (simp_all add: mount_def issue_simps)
  have first: "let r = fetchSongs (app mount)
    in sent mount = [r] \<and> http_method r = ''GET''
       \<and> url r = ''http://127.0.0.1:8000/songs/?'' @ query_of (url r)
       \<and> sortKey (app mount) = ''id''
       \<and> get_param ''sort_by'' (parse_query (query_of (url r))) = Some ''id''"
    using url [of initial_state] sort_by [of initial_state]
    by (simp add: m Let_def fetchSongs_method fetchSongs_parsed) (simp add: initial_state_def)
  have opts: "option_value opt \<in> {''id'', ''release_date'', ''title''}"
    by (cases opt) simp_all
  have later: "let s' = step (ChangeSort opt) s; r = fetchSongs (app s')
        in sent s' = sent s @ [r] \<and> http_method r = ''GET''
           \<and> url r = ''http://127.0.0.1:8000/songs/?'' @ query_of (url r)
           \<and> sortKey (app s') = option_value opt
           \<and> option_value opt \<in> {''id'', ''release_date'', ''title''}
           \<and> get_param ''sort_by'' (parse_query (query_of (url r))) = Some (option_value opt)"
    if "option_value opt \<noteq> sortKey (app s)"
    using that url [of "(app s)\<lparr>sortKey := option_value opt\<rparr>"]
      sort_by [of "(app s)\<lparr>sortKey := option_value opt\<rparr>"] option_value_truthy [of opt] opts
    by (simp add: Let_def issue_simps fetchSongs_method fetchSongs_parsed)
  from first later show ?thesis by blast
qed

theorem sort_change_issues_one_request_witness:
  "option_value OptionTitle \<noteq> sortKey (app mount)
   \<and> sent (step (ChangeSort OptionTitle) mount)
      = sent mount @ [fetchSongs (app (step (ChangeSort OptionTitle) mount))]
   \<and> sortKey (app (step (ChangeSort OptionTitle) mount)) = ''title''
   \<and> get_param ''sort_by''
        (parse_query (query_of (url (fetchSongs (app (step (ChangeSort OptionTitle) mount))))))
      = Some ''title''"
proof -
  have h: "option_value OptionTitle \<noteq> sortKey (app mount)"
    by (simp add: mount_def issue_simps initial_state_def)
  from sort_change_issues_one_request [of OptionTitle mount] h
  show ?thesis by (simp add: Let_def)
qed

text \<open>
  Claim C10. The one request of mounting is a GET of
  \<open>http://127.0.0.1:8000/songs/?sort_by=id\<close>, and it stays the first request of every run
  of the page: the initial sort key is \<open>id\<close>, the initial search text is empty, and the
  query string has no \<open>title_search\<close> parameter.
\<close>

theorem first_request_is_sort_by_id:
  "sent mount = [\<lparr>http_method = ''GET'', url = ''http://127.0.0.1:8000/songs/?sort_by=id''\<rparr>]
   \<and> hd (sent (run es mount))
       = \<lparr>http_method = ''GET'', url = ''http://127.0.0.1:8000/songs/?sort_by=id''\<rparr>
   \<and> sortKey initial_state = ''id'' \<and> keyword initial_state = []
   \<and> get_param ''title_search'' (parse_query (query_of (url (hd (sent mount))))) = None"
proof -
  have m: "sent mount = [\<lparr>http_method = ''GET'', url = ''http://127.0.0.1:8000/songs/?sort_by=id''\<rparr>]"
    by code_simp
  obtain rs where "sent (run es mount) = sent mount @ rs"
    using sent_run_extends by blast
  then have h: "hd (sent (run es mount)) = hd (sent mount)"
    by (simp add: m)
  have q: "get_param ''title_search'' (parse_query (query_of (url (hd (sent mount))))) = None"
    unfolding m by code_simp
  show ?thesis using h q by (simp add: m initial_state_def)
qed

text \<open>
  Claim C9. Typing in the search box issues no request and changes neither the songs list
  nor the error message nor what is rendered of them; it only stores the text. An event
  that issues a request is a click on the search button or the choice of a sort option
  whose value differs from the current sort key; the remaining request is that of \<open>mount\<close>.
\<close>

theorem typing_issues_no_request:
  "(let s' = step (ChangeKeyword v) s
    in sent s' = sent s \<and> in_flight s' = in_flight s
       \<and> songs (app s') = songs (app s) \<and> error (app s') = error (app s)
       \<and> sortKey (app s') = sortKey (app s) \<and> keyword (app s') = v
       \<and> entries (render (app s')) = entries (render (app s))
       \<and> heading_count (render (app s')) = heading_count (render (app s))
       \<and> error_paragraph (render (app s')) = error_paragraph (render (app s)))
   \<and> (sent (step e s) \<noteq> sent s \<longrightarrow>
        e = ClickSearch \<or> (\<exists>opt. e = ChangeSort opt \<and> option_value opt \<noteq> sortKey (app s)))"
  by (cases e) (simp_all add: Let_def render_def)

theorem typing_issues_no_request_witness:
  "sent (step ClickSearch mount) \<noteq> sent mount
   \<and> sent (step (ChangeKeyword ''abc'') mount) = sent mount"
  using typing_issues_no_request [of "''abc''" mount ClickSearch]
  by (simp add: Let_def issue_simps)

subsection \<open>Rendering\<close>

text \<open>
  Claim C5. After a successful response of N records the page has exactly N list entries,
  one per record and in the order of the response (keys, titles and dates are those of
  the records, position by position), and the count in the heading is N.
\<close>

theorem rendered_entries_match_response:
  "(let v = render (on_settled (Response True (Some data)) a)
    in length (entries v) = length data
       \<and> heading_count v = length data
       \<and> map entry_key (entries v) = map song_id data
       \<and> map entry_title (entries v) = map title data
       \<and> map entry_date (entries v) = map (\<lambda>s. release_date_text (release_date s)) data)"
  by (simp add: Let_def on_settled_def then_data_def render_def render_song_def o_def)

text \<open>
  Claim C8. A record whose \<open>release_date\<close> is the empty string is rendered with the
  fallback text, as a record whose \<open>release_date\<close> is \<open>null\<close> is; these are the two falsy
  values of the field, and any non-empty date is rendered as it is.
\<close>

theorem empty_release_date_shows_fallback:
  "entry_date (render_song (s\<lparr>release_date := Some []\<rparr>)) = release_date_fallback
   \<and> entry_date (render_song (s\<lparr>release_date := None\<rparr>)) = release_date_fallback
   \<and> entry_date (render_song (s\<lparr>release_date := Some (c # d)\<rparr>)) = c # d"
  by (simp add: render_song_def release_date_text_def truthy_def)

end
